theory Spec2Isabelle
  imports Complex_Main
begin

section \<open>Data model\<close>

text \<open>
  The program is \<^verbatim>\<open>src/app.py\<close>. A recommendation is a Python dict with the four string
  keys \<^verbatim>\<open>title\<close>, \<^verbatim>\<open>description\<close>, \<^verbatim>\<open>icon\<close> and \<^verbatim>\<open>priority\<close>; every dict the rule engine
  builds has exactly these keys, in this order, so dict equality (\<^verbatim>\<open>rec not in recommendations\<close>)
  is equality of the record.

  The four readings are Python floats. They are modelled as \<open>real\<close>: the comparisons
  against the thresholds are the source's, the rounding of the two subtractions and of
  the power estimate is not modelled. Rendering a float into a description
  (\<^verbatim>\<open>{x:.1f}\<close>, \<^verbatim>\<open>{x:.2f}\<close>, \<^verbatim>\<open>{x}\<close>) is Python's built-in formatting; it is a parameter of
  the model.
\<close>

record recommendation =
  title :: string
  description :: string
  icon :: string
  priority :: string

record formats =
  fixed1 :: "real \<Rightarrow> string"
  fixed2 :: "real \<Rightarrow> string"
  plain :: "real \<Rightarrow> string"

section \<open>Python slicing and searching\<close>

text \<open>
  \<^verbatim>\<open>xs[start:stop]\<close> with Python's rules: an absent bound is the end of the sequence, a
  negative bound counts from the end, and every bound is clamped into \<open>0..len\<close>.
\<close>

definition clamp_index :: "nat \<Rightarrow> int \<Rightarrow> nat" where
  "clamp_index n i = (if i < 0 then nat (max 0 (i + int n)) else min (nat i) n)"

definition py_slice :: "'a list \<Rightarrow> int option \<Rightarrow> int option \<Rightarrow> 'a list" where
  "py_slice xs start stop =
     (let n = length xs;
          lo = (case start of None \<Rightarrow> 0 | Some i \<Rightarrow> clamp_index n i);
          hi = (case stop of None \<Rightarrow> n | Some j \<Rightarrow> clamp_index n j)
      in take (hi - lo) (drop lo xs))"

text \<open>\<^verbatim>\<open>s.find(c)\<close> for a one-character needle: the lowest index, or \<open>-1\<close>.\<close>

fun str_find :: "string \<Rightarrow> char \<Rightarrow> int" where
  "str_find [] c = - 1"
| "str_find (x # xs) c =
     (if x = c then 0
      else (let r = str_find xs c in if r < 0 then - 1 else r + 1))"

text \<open>\<^verbatim>\<open>s.rfind(c)\<close>: the highest index, or \<open>-1\<close>.\<close>

definition str_rfind :: "string \<Rightarrow> char \<Rightarrow> int" where
  "str_rfind s c =
     (let r = str_find (rev s) c
      in if r < 0 then - 1 else int (length s) - 1 - r)"

section \<open>The rule-based engine: \<^verbatim>\<open>get_default_recommendations\<close>\<close>

subsection \<open>Derived quantities (lines 112--114 and 139)\<close>

definition temp_diff :: "real \<Rightarrow> real \<Rightarrow> real" where
  "temp_diff air_temp process_temp = process_temp - air_temp"

definition air_temp_c :: "real \<Rightarrow> real" where
  "air_temp_c air_temp = air_temp - 273.15"

definition process_temp_c :: "real \<Rightarrow> real" where
  "process_temp_c process_temp = process_temp - 273.15"

definition power_estimate :: "real \<Rightarrow> real \<Rightarrow> real" where
  "power_estimate torque rotational_speed = (torque * rotational_speed * 2 * 3.14159) / 60000"

subsection \<open>Thermal category (lines 116--136)\<close>

definition cooling_system_optimization :: "formats \<Rightarrow> real \<Rightarrow> recommendation" where
  "cooling_system_optimization F td =
     \<lparr>title = ''Cooling System Optimization'',
      description = ''Temperature differential of '' @ fixed1 F td @
        ''K detected. Check cooling efficiency, clean heat exchangers, and verify coolant flow rates to prevent thermal stress.'',
      icon = ''fas fa-snowflake'',
      priority = ''high''\<rparr>"

definition temperature_monitoring_enhancement :: "formats \<Rightarrow> real \<Rightarrow> recommendation" where
  "temperature_monitoring_enhancement F ptc =
     \<lparr>title = ''Temperature Monitoring Enhancement'',
      description = ''Process temperature at '' @ fixed1 F ptc @ [CHR 0xB0] @
        ''C requires attention. Implement continuous thermal monitoring and consider heat dissipation improvements.'',
      icon = ''fas fa-thermometer-half'',
      priority = ''medium''\<rparr>"

definition thermal_stability_maintenance :: recommendation where
  "thermal_stability_maintenance =
     \<lparr>title = ''Thermal Stability Maintenance'',
      description = ''Current thermal conditions are stable. Monitor temperature trends and maintain cooling system efficiency to prevent future overheating.'',
      icon = ''fas fa-temperature-low'',
      priority = ''low''\<rparr>"

definition thermal_step ::
  "formats \<Rightarrow> real \<Rightarrow> real \<Rightarrow> recommendation list \<Rightarrow> recommendation list" where
  "thermal_step F air_temp process_temp recommendations =
     (if temp_diff air_temp process_temp > 15
        then recommendations @ [cooling_system_optimization F (temp_diff air_temp process_temp)]
      else if process_temp_c process_temp > 50
        then recommendations @ [temperature_monitoring_enhancement F (process_temp_c process_temp)]
      else recommendations @ [thermal_stability_maintenance])"

subsection \<open>Rotational speed category (lines 141--161)\<close>

definition high_speed_bearing_maintenance :: "formats \<Rightarrow> real \<Rightarrow> recommendation" where
  "high_speed_bearing_maintenance F rotational_speed =
     \<lparr>title = ''High-Speed Bearing Maintenance'',
      description = ''Operating at '' @ plain F rotational_speed @
        '' RPM requires premium lubrication. Schedule bearing inspection and use high-speed compatible lubricants.'',
      icon = ''fas fa-tachometer-alt'',
      priority = ''high''\<rparr>"

definition low_speed_operation_analysis :: "formats \<Rightarrow> real \<Rightarrow> recommendation" where
  "low_speed_operation_analysis F rotational_speed =
     \<lparr>title = ''Low-Speed Operation Analysis'',
      description = ''Low speed operation at '' @ plain F rotational_speed @
        '' RPM may indicate efficiency issues. Check for mechanical resistance and alignment problems.'',
      icon = ''fas fa-search'',
      priority = ''medium''\<rparr>"

definition optimal_speed_range_monitoring :: "formats \<Rightarrow> real \<Rightarrow> recommendation" where
  "optimal_speed_range_monitoring F rotational_speed =
     \<lparr>title = ''Optimal Speed Range Monitoring'',
      description = ''Current speed of '' @ plain F rotational_speed @
        '' RPM is within normal range. Continue monitoring for speed variations and maintain consistent operation.'',
      icon = ''fas fa-gauge'',
      priority = ''low''\<rparr>"

definition speed_step ::
  "formats \<Rightarrow> real \<Rightarrow> recommendation list \<Rightarrow> recommendation list" where
  "speed_step F rotational_speed recommendations =
     (if rotational_speed > 2000
        then recommendations @ [high_speed_bearing_maintenance F rotational_speed]
      else if rotational_speed < 1000
        then recommendations @ [low_speed_operation_analysis F rotational_speed]
      else recommendations @ [optimal_speed_range_monitoring F rotational_speed])"

subsection \<open>Torque category (lines 163--183)\<close>

definition high_torque_component_inspection :: "formats \<Rightarrow> real \<Rightarrow> recommendation" where
  "high_torque_component_inspection F torque =
     \<lparr>title = ''High-Torque Component Inspection'',
      description = ''High torque load of '' @ plain F torque @
        '' Nm detected. Inspect coupling alignment, check for mechanical stress, and verify fastener torque specifications.'',
      icon = ''fas fa-wrench'',
      priority = ''high''\<rparr>"

definition drive_system_verification :: "formats \<Rightarrow> real \<Rightarrow> recommendation" where
  "drive_system_verification F torque =
     \<lparr>title = ''Drive System Verification'',
      description = ''Low torque reading of '' @ plain F torque @
        '' Nm may indicate slipping or reduced load transfer. Check belt tension and coupling integrity.'',
      icon = ''fas fa-tools'',
      priority = ''medium''\<rparr>"

definition torque_load_optimization :: "formats \<Rightarrow> real \<Rightarrow> recommendation" where
  "torque_load_optimization F torque =
     \<lparr>title = ''Torque Load Optimization'',
      description = ''Current torque of '' @ plain F torque @
        '' Nm is within acceptable range. Monitor for load variations and optimize power transfer efficiency.'',
      icon = ''fas fa-balance-scale'',
      priority = ''low''\<rparr>"

definition torque_step ::
  "formats \<Rightarrow> real \<Rightarrow> recommendation list \<Rightarrow> recommendation list" where
  "torque_step F torque recommendations =
     (if torque > 50 then recommendations @ [high_torque_component_inspection F torque]
      else if torque < 20 then recommendations @ [drive_system_verification F torque]
      else recommendations @ [torque_load_optimization F torque])"

subsection \<open>Maintenance urgency category (lines 186--199)\<close>

definition immediate_maintenance_protocol :: recommendation where
  "immediate_maintenance_protocol =
     \<lparr>title = ''Immediate Maintenance Protocol'',
      description = ''AI model indicates maintenance required. Schedule immediate inspection focusing on wear components, lubrication levels, and alignment checks.'',
      icon = ''fas fa-exclamation-triangle'',
      priority = ''high''\<rparr>"

definition preventive_maintenance_scheduling :: recommendation where
  "preventive_maintenance_scheduling =
     \<lparr>title = ''Preventive Maintenance Scheduling'',
      description = ''Machine is operating normally. Maintain current maintenance schedule and monitor parameter trends for early detection of changes.'',
      icon = ''fas fa-calendar-check'',
      priority = ''low''\<rparr>"

definition urgency_step :: "int \<Rightarrow> recommendation list \<Rightarrow> recommendation list" where
  "urgency_step prediction_result recommendations =
     (if prediction_result = 1 then recommendations @ [immediate_maintenance_protocol]
      else recommendations @ [preventive_maintenance_scheduling])"

subsection \<open>The cascade (lines 109--199)\<close>

text \<open>
  The list starts empty and the four \<^verbatim>\<open>if\<close> statements run in this order, each appending
  to what the previous one left.
\<close>

definition cascade ::
  "formats \<Rightarrow> real \<Rightarrow> real \<Rightarrow> real \<Rightarrow> real \<Rightarrow> int \<Rightarrow> recommendation list" where
  "cascade F air_temp process_temp rotational_speed torque prediction_result =
     urgency_step prediction_result
       (torque_step F torque
         (speed_step F rotational_speed
           (thermal_step F air_temp process_temp [])))"

subsection \<open>The auxiliary pool (lines 202--239)\<close>

definition additional_recommendations :: "formats \<Rightarrow> real \<Rightarrow> recommendation list" where
  "additional_recommendations F power_kw =
     [\<lparr>title = ''Vibration Analysis Implementation'',
       description = ''Conduct comprehensive vibration analysis to detect early signs of mechanical wear, misalignment, or bearing degradation before they cause failures.'',
       icon = ''fas fa-wave-square'',
       priority = ''medium''\<rparr>,
      \<lparr>title = ''Lubrication Schedule Optimization'',
       description = ''Review and optimize lubrication intervals based on current operating conditions, load factors, and manufacturer specifications for maximum efficiency.'',
       icon = ''fas fa-oil-can'',
       priority = ''medium''\<rparr>,
      \<lparr>title = ''Performance Trending & Analytics'',
       description = ''Establish comprehensive baseline performance metrics and implement advanced trend analysis for predictive maintenance optimization.'',
       icon = ''fas fa-chart-line'',
       priority = ''low''\<rparr>,
      \<lparr>title = ''Energy Efficiency Audit'',
       description = ''With estimated power output of '' @ fixed2 F power_kw @
         '' kW, conduct energy efficiency audit to identify optimization opportunities and reduce operational costs.'',
       icon = ''fas fa-bolt'',
       priority = ''medium''\<rparr>,
      \<lparr>title = ''Safety Protocol Review'',
       description = ''Review current safety protocols and emergency procedures to ensure compliance with latest industrial safety standards and regulations.'',
       icon = ''fas fa-shield-alt'',
       priority = ''medium''\<rparr>,
      \<lparr>title = ''Sensor Calibration Check'',
       description = ''Verify accuracy of temperature, speed, and torque sensors through calibration checks to ensure reliable data for predictive maintenance.'',
       icon = ''fas fa-adjust'',
       priority = ''low''\<rparr>]"

subsection \<open>Selection: backfill, quota, truncation (lines 241--272)\<close>

text \<open>
  One run of the \<^verbatim>\<open>for\<close> loop of lines 244--247: the first pool item that is not yet in
  the list is appended and the loop is left (\<^verbatim>\<open>break\<close>); when no item qualifies the list is
  unchanged.
\<close>

fun backfill_pass :: "recommendation list \<Rightarrow> recommendation list \<Rightarrow> recommendation list" where
  "backfill_pass [] recommendations = recommendations"
| "backfill_pass (rec # pool) recommendations =
     (if rec \<notin> set recommendations \<and> length recommendations < 4
        then recommendations @ [rec]
      else backfill_pass pool recommendations)"

text \<open>
  The \<^verbatim>\<open>while\<close> loop of line 242. A pass that appends nothing leaves the condition true
  for ever; not returning is the value \<open>None\<close>.
\<close>

partial_function (option) backfill ::
  "recommendation list \<Rightarrow> recommendation list \<Rightarrow> recommendation list option" where
  "backfill pool recommendations =
     (if length recommendations < 4
        then backfill pool (backfill_pass pool recommendations)
      else Some recommendations)"

text \<open>The priority quota of lines 250--270, applied only to more than four items.\<close>

definition prioritize :: "recommendation list \<Rightarrow> recommendation list" where
  "prioritize recommendations =
     (if length recommendations > 4 then
        (let high_priority = filter (\<lambda>r. priority r = ''high'') recommendations;
             medium_priority = filter (\<lambda>r. priority r = ''medium'') recommendations;
             low_priority = filter (\<lambda>r. priority r = ''low'') recommendations;
             final1 = py_slice high_priority None (Some 2);
             remaining_slots1 = 4 - int (length final1);
             final2 = final1 @ py_slice medium_priority None (Some remaining_slots1);
             remaining_slots2 = 4 - int (length final2)
         in if remaining_slots2 > 0
              then final2 @ py_slice low_priority None (Some remaining_slots2)
            else final2)
      else recommendations)"

text \<open>
  Lines 241--272 as a function of the candidate list and the pool: backfill, quota, and
  the final \<^verbatim>\<open>recommendations[:4]\<close>.
\<close>

definition select_recommendations ::
  "recommendation list \<Rightarrow> recommendation list \<Rightarrow> recommendation list option" where
  "select_recommendations pool candidates =
     (case backfill pool candidates of
        None \<Rightarrow> None
      | Some recommendations \<Rightarrow> Some (py_slice (prioritize recommendations) None (Some 4)))"

definition get_default_recommendations ::
  "formats \<Rightarrow> real \<Rightarrow> real \<Rightarrow> real \<Rightarrow> real \<Rightarrow> int \<Rightarrow> recommendation list option" where
  "get_default_recommendations F air_temp process_temp rotational_speed torque prediction_result =
     select_recommendations
       (additional_recommendations F (power_estimate torque rotational_speed))
       (cascade F air_temp process_temp rotational_speed torque prediction_result)"

section \<open>The AI path: \<^verbatim>\<open>get_ai_recommendations\<close>\<close>

subsection \<open>Python values and exceptions\<close>

text \<open>
  What \<^verbatim>\<open>json.loads\<close> and \<^verbatim>\<open>response.json()\<close> return: \<^verbatim>\<open>None\<close>, a bool, an int, a float, a
  str, a list, or a dict with string keys (in insertion order, each key once).
\<close>

datatype json =
    JNull
  | JBool bool
  | JInt int
  | JFloat real
  | JStr string
  | JArr "json list"
  | JObj "(string \<times> json) list"

datatype pyexc =
    KeyError
  | IndexError
  | TypeError
  | AttributeError
  | JSONDecodeError
  | Timeout
  | ConnectionError
  | OtherException

text \<open>\<^verbatim>\<open>x[k]\<close> with a string key: only a dict has string subscripts.\<close>

fun getitem_key :: "json \<Rightarrow> string \<Rightarrow> pyexc + json" where
  "getitem_key (JObj kvs) k = (case map_of kvs k of None \<Rightarrow> Inl KeyError | Some v \<Rightarrow> Inr v)"
| "getitem_key _ k = Inl TypeError"

text \<open>
  \<^verbatim>\<open>x[i]\<close> with an integer: an element of a list, a one-character string of a str; a
  decoded dict has no integer key; nothing else is subscriptable.
\<close>

definition py_index :: "'a list \<Rightarrow> int \<Rightarrow> pyexc + 'a" where
  "py_index xs i =
     (let n = int (length xs); j = (if i < 0 then i + n else i)
      in if 0 \<le> j \<and> j < n then Inr (xs ! nat j) else Inl IndexError)"

fun getitem_index :: "json \<Rightarrow> int \<Rightarrow> pyexc + json" where
  "getitem_index (JArr xs) i = py_index xs i"
| "getitem_index (JStr s) i =
     (case py_index s i of Inl e \<Rightarrow> Inl e | Inr c \<Rightarrow> Inr (JStr [c]))"
| "getitem_index (JObj kvs) i = Inl KeyError"
| "getitem_index _ i = Inl TypeError"

text \<open>Sequencing of steps that may raise: the first exception ends the block.\<close>

definition and_then :: "pyexc + 'a \<Rightarrow> ('a \<Rightarrow> pyexc + 'b) \<Rightarrow> pyexc + 'b" where
  "and_then r f = (case r of Inl e \<Rightarrow> Inl e | Inr v \<Rightarrow> f v)"

subsection \<open>The request (lines 25--80)\<close>

text \<open>
  \<^verbatim>\<open>GROQ_API_KEY = os.getenv("GROQ_API_KEY")\<close> is \<open>None\<close> when the variable is not set;
  an f-string renders \<^verbatim>\<open>None\<close> as the text \<^verbatim>\<open>None\<close>.
\<close>

definition GROQ_API_URL :: string where
  "GROQ_API_URL = ''https://api.groq.com/openai/v1/chat/completions''"

definition format_key :: "string option \<Rightarrow> string" where
  "format_key k = (case k of None \<Rightarrow> ''None'' | Some s \<Rightarrow> s)"

definition build_prompt :: "formats \<Rightarrow> real \<Rightarrow> real \<Rightarrow> real \<Rightarrow> real \<Rightarrow> int \<Rightarrow> string" where
  \<open>build_prompt F air_temp process_temp rotational_speed torque prediction_result =
     (let maintenance_status =
            (if prediction_result = 1 then ''requires maintenance'' else ''is in good condition'')
      in concat (map (\<lambda>line. line @ [CHR 0x0A])
       [[],
        ''        As an industrial maintenance expert, analyze these machine parameters and provide 4 specific, actionable maintenance recommendations:'',
        ''        '',
        ''        Machine Status: '' @ maintenance_status,
        ''        - Air Temperature: '' @ plain F air_temp @ '' K ('' @ fixed1 F (air_temp - 273.15) @ [CHR 0xB0] @ ''C)'',
        ''        - Process Temperature: '' @ plain F process_temp @ '' K ('' @ fixed1 F (process_temp - 273.15) @ [CHR 0xB0] @ ''C)'',
        ''        - Rotational Speed: '' @ plain F rotational_speed @ '' RPM'',
        ''        - Torque: '' @ plain F torque @ '' Nm'',
        ''        '',
        ''        Consider these factors in your analysis:'',
        ''        - Temperature differentials and thermal stress'',
        ''        - Rotational speed vs torque relationship'',
        ''        - Wear patterns and lubrication needs'',
        ''        - Energy efficiency optimization'',
        ''        - Predictive maintenance strategies'',
        ''        - Safety protocols and compliance'',
        ''        '',
        ''        Provide exactly 4 recommendations in this JSON format:'',
        ''        {'',
        ''            "recommendations": ['',
        ''                {'',
        ''                    "title": "Specific Action Title",'',
        ''                    "description": "Detailed explanation of what to do and why",'',
        ''                    "icon": "fas fa-relevant-icon",'',
        ''                    "priority": "high/medium/low"'',
        ''                }'',
        ''            ]'',
        ''        }'',
        ''        '',
        ''        Make recommendations specific to the actual parameter values, not generic advice. Include a mix of immediate actions, preventive measures, monitoring suggestions, and optimization opportunities.''])
       @ ''        '')\<close>

record http_request =
  url :: string
  headers :: "(string \<times> string) list"
  payload :: json
  timeout :: nat

definition build_request ::
  "formats \<Rightarrow> string option \<Rightarrow> real \<Rightarrow> real \<Rightarrow> real \<Rightarrow> real \<Rightarrow> int \<Rightarrow> http_request" where
  "build_request F api_key air_temp process_temp rotational_speed torque prediction_result =
     \<lparr>url = GROQ_API_URL,
      headers =
        [(''Authorization'', ''Bearer '' @ format_key api_key),
         (''Content-Type'', ''application/json'')],
      payload =
        JObj [(''model'', JStr ''mixtral-8x7b-32768''),
              (''messages'',
                 JArr [JObj [(''role'', JStr ''system''),
                             (''content'', JStr ''You are an expert industrial maintenance engineer with 20+ years of experience in predictive maintenance systems.'')],
                       JObj [(''role'', JStr ''user''),
                             (''content'',
                                JStr (build_prompt F air_temp process_temp rotational_speed
                                        torque prediction_result))]]),
              (''temperature'', JFloat 0.3),
              (''max_tokens'', JInt 1200)],
      timeout = 30\<rparr>"

subsection \<open>The response (lines 80--99)\<close>

text \<open>
  \<^verbatim>\<open>requests.post\<close> either raises (a timeout, a connection error, anything else) or
  returns a response, of which the code reads \<^verbatim>\<open>status_code\<close> and \<^verbatim>\<open>json()\<close>; the latter
  raises when the body is not JSON. The remote service is a parameter of the model: a
  function from the request to this outcome.
\<close>

datatype http_outcome =
    Raised pyexc
  | Response int "pyexc + json"

text \<open>Lines 83--84: \<^verbatim>\<open>response.json()['choices'][0]['message']['content']\<close>.\<close>

definition message_content :: "pyexc + json \<Rightarrow> pyexc + json" where
  "message_content body =
     and_then body (\<lambda>result.
     and_then (getitem_key result ''choices'') (\<lambda>choices.
     and_then (getitem_index choices 0) (\<lambda>choice.
     and_then (getitem_key choice ''message'') (\<lambda>message.
     getitem_key message ''content''))))"

text \<open>Lines 89--91: the text between the first opening and the last closing brace.\<close>

definition extract_json :: "string \<Rightarrow> string" where
  "extract_json content =
     (let start_idx = str_find content (CHR ''{'');
          end_idx = str_rfind content (CHR ''}'') + 1
      in py_slice content (Some start_idx) (Some end_idx))"

text \<open>
  Lines 89--93, the body of the inner \<^verbatim>\<open>try\<close>. Only a str has \<^verbatim>\<open>find\<close>. The decoder
  \<^verbatim>\<open>json.loads\<close> is Python's library, a parameter here.
\<close>

definition parse_recommendations :: "(string \<Rightarrow> pyexc + json) \<Rightarrow> json \<Rightarrow> pyexc + json" where
  "parse_recommendations loads content =
     (case content of
        JStr s \<Rightarrow>
          and_then (loads (extract_json s)) (\<lambda>recommendations_data.
          getitem_key recommendations_data ''recommendations'')
      | _ \<Rightarrow> Inl AttributeError)"

text \<open>The recommendation dicts of the rule engine, as the Python values they are.\<close>

definition json_of_recommendation :: "recommendation \<Rightarrow> json" where
  "json_of_recommendation r =
     JObj [(''title'', JStr (title r)),
           (''description'', JStr (description r)),
           (''icon'', JStr (icon r)),
           (''priority'', JStr (priority r))]"

definition fallback ::
  "formats \<Rightarrow> real \<Rightarrow> real \<Rightarrow> real \<Rightarrow> real \<Rightarrow> int \<Rightarrow> json option" where
  "fallback F air_temp process_temp rotational_speed torque prediction_result =
     map_option (\<lambda>recs. JArr (map json_of_recommendation recs))
       (get_default_recommendations F air_temp process_temp rotational_speed torque
          prediction_result)"

text \<open>
  The function itself. The three calls of \<^verbatim>\<open>get_default_recommendations\<close> are the outer
  handler (line 103: the request raised, or lines 83--84 did), the \<^verbatim>\<open>else\<close> of the status
  test (line 99) and the inner handler (line 96). The \<^verbatim>\<open>print\<close> calls are not modelled.
\<close>

definition get_ai_recommendations ::
  "formats \<Rightarrow> string option \<Rightarrow> (http_request \<Rightarrow> http_outcome) \<Rightarrow> (string \<Rightarrow> pyexc + json)
     \<Rightarrow> real \<Rightarrow> real \<Rightarrow> real \<Rightarrow> real \<Rightarrow> int \<Rightarrow> json option" where
  "get_ai_recommendations F api_key post loads air_temp process_temp rotational_speed torque
       prediction_result =
     (case post (build_request F api_key air_temp process_temp rotational_speed torque
                   prediction_result) of
        Raised e \<Rightarrow>
          fallback F air_temp process_temp rotational_speed torque prediction_result
      | Response status_code body \<Rightarrow>
          if status_code = 200 then
            (case message_content body of
               Inl e \<Rightarrow>
                 fallback F air_temp process_temp rotational_speed torque prediction_result
             | Inr content \<Rightarrow>
                 (case parse_recommendations loads content of
                    Inl e \<Rightarrow>
                      fallback F air_temp process_temp rotational_speed torque
                        prediction_result
                  | Inr recommendations \<Rightarrow> Some recommendations))
          else fallback F air_temp process_temp rotational_speed torque prediction_result)"

section \<open>Scenarios and measures used in the statements\<close>

text \<open>The number of items a list holds with priority \<^verbatim>\<open>high\<close>.\<close>

definition high_count :: "recommendation list \<Rightarrow> nat" where
  "high_count recommendations = length (filter (\<lambda>r. priority r = ''high'') recommendations)"

text \<open>
  A rendering of floats known on finitely many values, each paired with the text Python
  prints for it; used to run the model on concrete readings.
\<close>

definition format_table :: "(real \<times> string) list \<Rightarrow> real \<Rightarrow> string" where
  "format_table tbl x = (case map_of tbl x of None \<Rightarrow> [] | Some s \<Rightarrow> s)"

text \<open>
  The reading \<open>airTemp = 300\<close>, \<open>processTemp = 320\<close>, \<open>rotationalSpeed = 2500\<close>,
  \<open>torque = 60\<close> with label 1.
\<close>

definition scenario_a_formats :: formats where
  "scenario_a_formats =
     \<lparr>fixed1 = format_table [(20, ''20.0''), (26.85, ''26.9''), (46.85, ''46.9'')],
      fixed2 = format_table [(15.70795, ''15.71'')],
      plain = format_table [(300, ''300.0''), (320, ''320.0''), (2500, ''2500.0''), (60, ''60.0'')]\<rparr>"

definition scenario_a_candidates :: "recommendation list" where
  "scenario_a_candidates = cascade scenario_a_formats 300 320 2500 60 1"

definition scenario_a_pool :: "recommendation list" where
  "scenario_a_pool = additional_recommendations scenario_a_formats (power_estimate 60 2500)"

text \<open>Five candidates: the scenario's four, all high, and a low one.\<close>

definition five_candidates :: "recommendation list" where
  "five_candidates = scenario_a_candidates @ [thermal_stability_maintenance]"

subsection \<open>Responses of the remote service\<close>

text \<open>
  A decoder known on finitely many texts, each paired with the value \<^verbatim>\<open>json.loads\<close> gives
  it; every other text is treated as undecodable. Used to run the model on concrete
  responses.
\<close>

definition loads_table :: "(string \<times> json) list \<Rightarrow> string \<Rightarrow> pyexc + json" where
  "loads_table tbl s = (case map_of tbl s of None \<Rightarrow> Inl JSONDecodeError | Some v \<Rightarrow> Inr v)"

text \<open>A service with one fixed outcome, whatever the request.\<close>

definition service_returning :: "http_outcome \<Rightarrow> http_request \<Rightarrow> http_outcome" where
  "service_returning outcome request = outcome"

text \<open>The shape of a chat completion whose message content is the given text.\<close>

definition chat_completion :: "string \<Rightarrow> json" where
  "chat_completion text =
     JObj [(''choices'',
            JArr [JObj [(''message'',
                         JObj [(''role'', JStr ''assistant''), (''content'', JStr text)])]])]"

definition invalid_key_body :: json where
  "invalid_key_body =
     JObj [(''error'',
            JObj [(''message'', JStr ''Invalid API Key''),
                  (''type'', JStr ''invalid_request_error''),
                  (''code'', JStr ''invalid_api_key'')])]"

text \<open>
  Two services that look at the \<^verbatim>\<open>Authorization\<close> header only: one answers a request
  carrying \<^verbatim>\<open>Bearer None\<close> with a completion, the other refuses it with status 401.
\<close>

definition accepts_bearer_none :: "string \<Rightarrow> http_request \<Rightarrow> http_outcome" where
  "accepts_bearer_none text request =
     (if map_of (headers request) ''Authorization'' = Some ''Bearer None''
        then Response 200 (Inr (chat_completion text))
      else Response 401 (Inr invalid_key_body))"

definition rejects_bearer_none :: "string \<Rightarrow> http_request \<Rightarrow> http_outcome" where
  "rejects_bearer_none text request =
     (if map_of (headers request) ''Authorization'' = Some ''Bearer None''
        then Response 401 (Inr invalid_key_body)
      else Response 200 (Inr (chat_completion text)))"

text \<open>A payload of four well-formed items, as text and as the decoded value.\<close>

definition four_items_inner :: string where
  \<open>four_items_inner = ''"recommendations": [{"title": "Inspect bearings", "description": "Check for wear", "icon": "fas fa-cog", "priority": "high"}, {"title": "Check coolant", "description": "Verify flow rate", "icon": "fas fa-snowflake", "priority": "medium"}, {"title": "Review lubrication", "description": "Adjust schedule", "icon": "fas fa-oil-can", "priority": "medium"}, {"title": "Log vibration", "description": "Track trend", "icon": "fas fa-chart-line", "priority": "low"}]''\<close>

definition four_items_text :: string where
  "four_items_text = CHR ''{'' # four_items_inner @ [CHR ''}'']"

definition four_items :: "json list" where
  "four_items =
     [JObj [(''title'', JStr ''Inspect bearings''), (''description'', JStr ''Check for wear''),
            (''icon'', JStr ''fas fa-cog''), (''priority'', JStr ''high'')],
      JObj [(''title'', JStr ''Check coolant''), (''description'', JStr ''Verify flow rate''),
            (''icon'', JStr ''fas fa-snowflake''), (''priority'', JStr ''medium'')],
      JObj [(''title'', JStr ''Review lubrication''), (''description'', JStr ''Adjust schedule''),
            (''icon'', JStr ''fas fa-oil-can''), (''priority'', JStr ''medium'')],
      JObj [(''title'', JStr ''Log vibration''), (''description'', JStr ''Track trend''),
            (''icon'', JStr ''fas fa-chart-line''), (''priority'', JStr ''low'')]]"

definition four_items_loads :: "string \<Rightarrow> pyexc + json" where
  "four_items_loads = loads_table [(four_items_text, JObj [(''recommendations'', JArr four_items)])]"

text \<open>The same payload wrapped in prose and a code fence.\<close>

definition fence_prefix :: string where
  "fence_prefix = ''Sure! ```json'' @ [CHR 0x0A]"

definition fence_suffix :: string where
  "fence_suffix = CHR 0x0A # ''```''"

definition fenced_text :: string where
  "fenced_text = fence_prefix @ CHR ''{'' # four_items_inner @ CHR ''}'' # fence_suffix"

text \<open>A payload of one well-formed item.\<close>

definition one_item_inner :: string where
  \<open>one_item_inner = ''"recommendations": [{"title": "Inspect bearings", "description": "Check for wear", "icon": "fas fa-cog", "priority": "high"}]''\<close>

definition one_item_text :: string where
  "one_item_text = CHR ''{'' # one_item_inner @ [CHR ''}'']"

definition one_item :: "json list" where
  "one_item =
     [JObj [(''title'', JStr ''Inspect bearings''), (''description'', JStr ''Check for wear''),
            (''icon'', JStr ''fas fa-cog''), (''priority'', JStr ''high'')]]"

definition one_item_loads :: "string \<Rightarrow> pyexc + json" where
  "one_item_loads = loads_table [(one_item_text, JObj [(''recommendations'', JArr one_item)])]"

text \<open>A payload of four empty objects.\<close>

definition empty_items_inner :: string where
  \<open>empty_items_inner = ''"recommendations": [{}, {}, {}, {}]''\<close>

definition empty_items_text :: string where
  "empty_items_text = CHR ''{'' # empty_items_inner @ [CHR ''}'']"

definition empty_items :: "json list" where
  "empty_items = [JObj [], JObj [], JObj [], JObj []]"

definition empty_items_loads :: "string \<Rightarrow> pyexc + json" where
  "empty_items_loads =
     loads_table [(empty_items_text, JObj [(''recommendations'', JArr empty_items)])]"

text \<open>A payload that decodes to an object without the \<^verbatim>\<open>recommendations\<close> key.\<close>

definition no_key_inner :: string where
  \<open>no_key_inner = ''"items": []''\<close>

definition no_key_text :: string where
  "no_key_text = CHR ''{'' # no_key_inner @ [CHR ''}'']"

definition no_key_loads :: "string \<Rightarrow> pyexc + json" where
  "no_key_loads = loads_table [(no_key_text, JObj [(''items'', JArr [])])]"

subsection \<open>The payload the specification asks for\<close>

text \<open>
  The specification's parser accepts a decoded payload when it has a \<^verbatim>\<open>recommendations\<close>
  key holding a sequence of four elements, each an object with the keys \<^verbatim>\<open>title\<close>,
  \<^verbatim>\<open>description\<close>, \<^verbatim>\<open>icon\<close> and \<^verbatim>\<open>priority\<close>, the priority being high, medium or low in any
  letter case. This predicate follows the specification's words, not the source.
\<close>

definition ascii_lower :: "char \<Rightarrow> char" where
  "ascii_lower c =
     (let n = (of_char c :: nat) in if 65 \<le> n \<and> n \<le> 90 then char_of (n + 32) else c)"

definition priority_token_ok :: "json \<Rightarrow> bool" where
  "priority_token_ok v =
     (case v of
        JStr s \<Rightarrow> map ascii_lower s = ''high'' \<or> map ascii_lower s = ''medium'' \<or>
                  map ascii_lower s = ''low''
      | _ \<Rightarrow> False)"

definition spec_well_formed_item :: "json \<Rightarrow> bool" where
  "spec_well_formed_item item =
     (case item of
        JObj kvs \<Rightarrow>
          map_of kvs ''title'' \<noteq> None \<and> map_of kvs ''description'' \<noteq> None \<and>
          map_of kvs ''icon'' \<noteq> None \<and>
          (case map_of kvs ''priority'' of None \<Rightarrow> False | Some v \<Rightarrow> priority_token_ok v)
      | _ \<Rightarrow> False)"

definition spec_valid_payload :: "json \<Rightarrow> bool" where
  "spec_valid_payload d =
     (case getitem_key d ''recommendations'' of
        Inr (JArr xs) \<Rightarrow> length xs = 4 \<and> list_all spec_well_formed_item xs
      | _ \<Rightarrow> False)"

section \<open>The rule-based engine: properties\<close>

subsection \<open>Slicing\<close>

lemma py_slice_prefix: "0 \<le> n \<Longrightarrow> py_slice xs None (Some n) = take (nat n) xs"
  by (simp add: py_slice_def clamp_index_def Let_def min_def)

lemma set_py_slice: "set (py_slice xs a b) \<subseteq> set xs"
proof -
  have "set (take n (drop m xs)) \<subseteq> set xs" for n m
    using set_take_subset [of n "drop m xs"] set_drop_subset [of m xs] by blast
  then show ?thesis by (simp add: py_slice_def Let_def)
qed

subsection \<open>The cascade\<close>

lemma thermal_step_append: "thermal_step F a p recs = recs @ thermal_step F a p []"
  by (simp add: thermal_step_def)

lemma speed_step_append: "speed_step F s recs = recs @ speed_step F s []"
  by (simp add: speed_step_def)

lemma torque_step_append: "torque_step F t recs = recs @ torque_step F t []"
  by (simp add: torque_step_def)

lemma urgency_step_append: "urgency_step l recs = recs @ urgency_step l []"
  by (simp add: urgency_step_def)

lemma cascade_append:
  "cascade F a p s t l =
     thermal_step F a p [] @ speed_step F s [] @ torque_step F t [] @ urgency_step l []"
  unfolding cascade_def
  by (subst urgency_step_append, subst torque_step_append, subst speed_step_append) simp

lemma thermal_step_cases:
  "thermal_step F a p [] = [cooling_system_optimization F (temp_diff a p)] \<or>
   thermal_step F a p [] = [temperature_monitoring_enhancement F (process_temp_c p)] \<or>
   thermal_step F a p [] = [thermal_stability_maintenance]"
  by (simp add: thermal_step_def)

lemma speed_step_cases:
  "speed_step F s [] = [high_speed_bearing_maintenance F s] \<or>
   speed_step F s [] = [low_speed_operation_analysis F s] \<or>
   speed_step F s [] = [optimal_speed_range_monitoring F s]"
  by (simp add: speed_step_def)

lemma torque_step_cases:
  "torque_step F t [] = [high_torque_component_inspection F t] \<or>
   torque_step F t [] = [drive_system_verification F t] \<or>
   torque_step F t [] = [torque_load_optimization F t]"
  by (simp add: torque_step_def)

lemma urgency_step_cases:
  "urgency_step l [] = [immediate_maintenance_protocol] \<or>
   urgency_step l [] = [preventive_maintenance_scheduling]"
  by (simp add: urgency_step_def)

lemma length_steps:
  "length (thermal_step F a p []) = 1" "length (speed_step F s []) = 1"
  "length (torque_step F t []) = 1" "length (urgency_step l []) = 1"
  by (simp_all add: thermal_step_def speed_step_def torque_step_def urgency_step_def)

lemma length_cascade: "length (cascade F a p s t l) = 4"
  by (simp add: cascade_append length_steps)

text \<open>
  Claim C6. Whatever the reading and the label, each of the four category blocks appends
  exactly one recommendation to the list it is given, chosen among the branches of its
  \<^verbatim>\<open>if\<close>/\<^verbatim>\<open>elif\<close>/\<^verbatim>\<open>else\<close>; the cascade is the thermal, the speed, the torque and the
  urgency candidate in this order, four in all.
\<close>

theorem cascade_one_per_category:
  "thermal_step F a p recs = recs @ thermal_step F a p [] \<and>
   speed_step F s recs = recs @ speed_step F s [] \<and>
   torque_step F t recs = recs @ torque_step F t [] \<and>
   urgency_step l recs = recs @ urgency_step l [] \<and>
   (thermal_step F a p [] = [cooling_system_optimization F (temp_diff a p)] \<or>
    thermal_step F a p [] = [temperature_monitoring_enhancement F (process_temp_c p)] \<or>
    thermal_step F a p [] = [thermal_stability_maintenance]) \<and>
   (speed_step F s [] = [high_speed_bearing_maintenance F s] \<or>
    speed_step F s [] = [low_speed_operation_analysis F s] \<or>
    speed_step F s [] = [optimal_speed_range_monitoring F s]) \<and>
   (torque_step F t [] = [high_torque_component_inspection F t] \<or>
    torque_step F t [] = [drive_system_verification F t] \<or>
    torque_step F t [] = [torque_load_optimization F t]) \<and>
   (urgency_step l [] = [immediate_maintenance_protocol] \<or>
    urgency_step l [] = [preventive_maintenance_scheduling]) \<and>
   cascade F a p s t l =
     thermal_step F a p [] @ speed_step F s [] @ torque_step F t [] @ urgency_step l [] \<and>
   length (cascade F a p s t l) = 4"
proof (intro conjI)
  show "thermal_step F a p recs = recs @ thermal_step F a p []" by (rule thermal_step_append)
  show "speed_step F s recs = recs @ speed_step F s []" by (rule speed_step_append)
  show "torque_step F t recs = recs @ torque_step F t []" by (rule torque_step_append)
  show "urgency_step l recs = recs @ urgency_step l []" by (rule urgency_step_append)
  show "thermal_step F a p [] = [cooling_system_optimization F (temp_diff a p)] \<or>
    thermal_step F a p [] = [temperature_monitoring_enhancement F (process_temp_c p)] \<or>
    thermal_step F a p [] = [thermal_stability_maintenance]" by (rule thermal_step_cases)
  show "speed_step F s [] = [high_speed_bearing_maintenance F s] \<or>
    speed_step F s [] = [low_speed_operation_analysis F s] \<or>
    speed_step F s [] = [optimal_speed_range_monitoring F s]" by (rule speed_step_cases)
  show "torque_step F t [] = [high_torque_component_inspection F t] \<or>
    torque_step F t [] = [drive_system_verification F t] \<or>
    torque_step F t [] = [torque_load_optimization F t]" by (rule torque_step_cases)
  show "urgency_step l [] = [immediate_maintenance_protocol] \<or>
    urgency_step l [] = [preventive_maintenance_scheduling]" by (rule urgency_step_cases)
  show "cascade F a p s t l =
     thermal_step F a p [] @ speed_step F s [] @ torque_step F t [] @ urgency_step l []"
    by (rule cascade_append)
  show "length (cascade F a p s t l) = 4" by (rule length_cascade)
qed

text \<open>
  Claim C7. At the thresholds the comparisons are strict: a temperature differential of
  exactly 15 does not take the high-differential branch (the thermal candidate is then the
  monitoring advisory or the stability note, by the process temperature); a speed of
  exactly 2000 or 1000 gives the normal-range note and a torque of exactly 50 or 20 the
  acceptable-range note, both of priority low.
\<close>

theorem threshold_boundaries:
  assumes "temp_diff air_temp process_temp = 15"
  shows "thermal_step F air_temp process_temp [] =
           (if process_temp_c process_temp > 50
              then [temperature_monitoring_enhancement F (process_temp_c process_temp)]
            else [thermal_stability_maintenance]) \<and>
         priority (hd (thermal_step F air_temp process_temp [])) \<noteq> ''high'' \<and>
         speed_step F 2000 [] = [optimal_speed_range_monitoring F 2000] \<and>
         speed_step F 1000 [] = [optimal_speed_range_monitoring F 1000] \<and>
         priority (optimal_speed_range_monitoring F rotational_speed) = ''low'' \<and>
         torque_step F 50 [] = [torque_load_optimization F 50] \<and>
         torque_step F 20 [] = [torque_load_optimization F 20] \<and>
         priority (torque_load_optimization F torque) = ''low''"
proof (intro conjI)
  show "thermal_step F air_temp process_temp [] =
           (if process_temp_c process_temp > 50
              then [temperature_monitoring_enhancement F (process_temp_c process_temp)]
            else [thermal_stability_maintenance])"
    using assms by (simp add: thermal_step_def)
  show "priority (hd (thermal_step F air_temp process_temp [])) \<noteq> ''high''"
    using assms
    by (simp add: thermal_step_def temperature_monitoring_enhancement_def
          thermal_stability_maintenance_def)
  show "speed_step F 2000 [] = [optimal_speed_range_monitoring F 2000]"
    by (simp add: speed_step_def)
  show "speed_step F 1000 [] = [optimal_speed_range_monitoring F 1000]"
    by (simp add: speed_step_def)
  show "priority (optimal_speed_range_monitoring F rotational_speed) = ''low''"
    by (simp add: optimal_speed_range_monitoring_def)
  show "torque_step F 50 [] = [torque_load_optimization F 50]"
    by (simp add: torque_step_def)
  show "torque_step F 20 [] = [torque_load_optimization F 20]"
    by (simp add: torque_step_def)
  show "priority (torque_load_optimization F torque) = ''low''"
    by (simp add: torque_load_optimization_def)
qed

theorem threshold_boundaries_witness:
  "temp_diff 300 315 = 15 \<and>
   thermal_step scenario_a_formats 300 315 [] = [thermal_stability_maintenance] \<and>
   speed_step scenario_a_formats 2000 [] = [optimal_speed_range_monitoring scenario_a_formats 2000] \<and>
   torque_step scenario_a_formats 50 [] = [torque_load_optimization scenario_a_formats 50]"
proof -
  have h: "temp_diff 300 315 = 15" by (simp add: temp_diff_def)
  show ?thesis
    using h threshold_boundaries [OF h, of scenario_a_formats]
    by (simp add: process_temp_c_def)
qed

subsection \<open>Selection\<close>

lemma backfill_done: "\<not> length recs < 4 \<Longrightarrow> backfill pool recs = Some recs"
  by (subst backfill.simps) simp

lemma prioritize_four: "length recs = 4 \<Longrightarrow> prioritize recs = recs"
  by (simp add: prioritize_def)

lemma select_four: "length recs = 4 \<Longrightarrow> select_recommendations pool recs = Some recs"
  by (simp add: select_recommendations_def backfill_done prioritize_four py_slice_prefix)

lemma get_default_cascade:
  "get_default_recommendations F a p s t l = Some (cascade F a p s t l)"
  by (simp add: get_default_recommendations_def select_four length_cascade)

lemma cascade_all_high:
  "cascade F 300 320 2500 60 1 =
     [cooling_system_optimization F 20,
      high_speed_bearing_maintenance F 2500,
      high_torque_component_inspection F 60,
      immediate_maintenance_protocol]"
  by (simp add: cascade_def thermal_step_def speed_step_def torque_step_def urgency_step_def
        temp_diff_def)

lemma high_count_all_high: "high_count (cascade F 300 320 2500 60 1) = 4"
  by (simp add: cascade_all_high high_count_def cooling_system_optimization_def
        high_speed_bearing_maintenance_def high_torque_component_inspection_def
        immediate_maintenance_protocol_def)

text \<open>
  Claim C10. For every reading and label \<^verbatim>\<open>get_default_recommendations\<close> returns, and
  returns the four cascade candidates in category order: the backfill loop gets a list of
  length four and hands it back, the quota leaves it as it is. At the reading
  (300, 320, 2500, 60) with label 1 all four returned items are of priority high.
\<close>

theorem default_returns_cascade:
  "get_default_recommendations F a p s t l =
     Some (thermal_step F a p [] @ speed_step F s [] @ torque_step F t [] @ urgency_step l []) \<and>
   backfill (additional_recommendations F (power_estimate t s)) (cascade F a p s t l) =
     Some (cascade F a p s t l) \<and>
   prioritize (cascade F a p s t l) = cascade F a p s t l \<and>
   get_default_recommendations F 300 320 2500 60 1 = Some (cascade F 300 320 2500 60 1) \<and>
   high_count (cascade F 300 320 2500 60 1) = 4"
proof (intro conjI)
  show "get_default_recommendations F a p s t l =
     Some (thermal_step F a p [] @ speed_step F s [] @ torque_step F t [] @ urgency_step l [])"
    using get_default_cascade [of F a p s t l] cascade_append [of F a p s t l] by simp
  show "backfill (additional_recommendations F (power_estimate t s)) (cascade F a p s t l) =
     Some (cascade F a p s t l)"
    by (simp add: backfill_done length_cascade)
  show "prioritize (cascade F a p s t l) = cascade F a p s t l"
    by (simp add: prioritize_four length_cascade)
  show "get_default_recommendations F 300 320 2500 60 1 = Some (cascade F 300 320 2500 60 1)"
    by (rule get_default_cascade)
  show "high_count (cascade F 300 320 2500 60 1) = 4"
    by (rule high_count_all_high)
qed

text \<open>
  Claim C2, as stated: a candidate list of length at least four with at least two high
  items comes out with at most two high items. It fails for the scenario's cascade: the
  four candidates are all high and selection returns them unchanged.
\<close>

theorem selection_keeps_four_high_counterexample:
  "4 \<le> length scenario_a_candidates \<and> 2 \<le> high_count scenario_a_candidates \<and>
   select_recommendations scenario_a_pool scenario_a_candidates = Some scenario_a_candidates \<and>
   \<not> high_count scenario_a_candidates \<le> 2"
proof -
  have len: "length scenario_a_candidates = 4"
    by (simp add: scenario_a_candidates_def length_cascade)
  have hc: "high_count scenario_a_candidates = 4"
    by (simp add: scenario_a_candidates_def high_count_all_high)
  show ?thesis
    by (simp add: len hc select_four)
qed

lemma high_count_take: "high_count (take n xs) \<le> high_count xs"
  unfolding high_count_def
proof (induction xs arbitrary: n)
  case Nil
  show ?case by simp
next
  case (Cons x xs)
  show ?case
  proof (cases n)
    case 0
    then show ?thesis by simp
  next
    case (Suc k)
    with Cons [of k] show ?thesis by simp
  qed
qed

lemma high_count_append: "high_count (xs @ ys) = high_count xs + high_count ys"
  by (simp add: high_count_def)

lemma high_count_le_length: "high_count xs \<le> length xs"
  by (simp add: high_count_def)

lemma high_count_slice_other:
  assumes "c \<noteq> ''high''"
  shows "high_count (py_slice (filter (\<lambda>r. priority r = c) xs) a b) = 0"
proof -
  have "r \<in> set (py_slice (filter (\<lambda>r. priority r = c) xs) a b) \<Longrightarrow> priority r \<noteq> ''high''" for r
    using set_py_slice [of "filter (\<lambda>r. priority r = c) xs" a b] assms by auto
  then show ?thesis
    by (auto simp: high_count_def filter_empty_conv)
qed

lemma high_count_slice2: "high_count (py_slice xs None (Some 2)) \<le> 2"
proof -
  have "length (py_slice xs None (Some 2)) \<le> 2"
    by (simp add: py_slice_prefix)
  with high_count_le_length [of "py_slice xs None (Some 2)"] show ?thesis by linarith
qed

lemma high_count_prioritize:
  assumes "4 < length recs"
  shows "high_count (prioritize recs) \<le> 2"
  using assms high_count_slice2 [of "filter (\<lambda>r. priority r = ''high'') recs"]
  by (simp add: prioritize_def Let_def high_count_append high_count_slice_other)

text \<open>
  Claim C2, amended. Selection returns for every candidate list of length at least four;
  a list of exactly four comes back unchanged, whatever its priorities, and a list of
  more than four comes back with at most two high items.
\<close>

theorem selection_quota:
  assumes "4 \<le> length candidates"
  shows "\<exists>out. select_recommendations pool candidates = Some out \<and>
           (if length candidates = 4 then out = candidates else high_count out \<le> 2)"
proof (cases "length candidates = 4")
  case True
  then show ?thesis by (simp add: select_four)
next
  case False
  with assms have gt: "4 < length candidates" by simp
  have "high_count (take 4 (prioritize candidates)) \<le> 2"
    using high_count_take [of 4 "prioritize candidates"] high_count_prioritize [OF gt] by simp
  with False assms show ?thesis
    by (simp add: select_recommendations_def backfill_done py_slice_prefix)
qed

theorem selection_quota_witness:
  "4 \<le> length five_candidates \<and> high_count five_candidates = 4 \<and>
   (\<exists>out. select_recommendations scenario_a_pool five_candidates = Some out \<and>
      high_count out \<le> 2)"
proof -
  have len: "length five_candidates = 5"
    by (simp add: five_candidates_def scenario_a_candidates_def length_cascade)
  have h: "4 \<le> length five_candidates" by (simp add: len)
  have hc: "high_count five_candidates = 4"
    by (simp add: five_candidates_def scenario_a_candidates_def high_count_append
          high_count_all_high)
       (simp add: high_count_def thermal_stability_maintenance_def)
  show ?thesis
    using selection_quota [OF h, of scenario_a_pool] h hc by (simp add: len)
qed

subsection \<open>Derived quantities\<close>

text \<open>A lower bound of \<open>pi\<close>, from the Maclaurin expansion of the cosine.\<close>

lemma cos_coeff_sum_14:
  "(\<Sum>m<14. cos_coeff m * (x::real) ^ m) =
     1 - x^2 / 2 + x^4 / 24 - x^6 / 720 + x^8 / 40320 - x^10 / 3628800 + x^12 / 479001600"
proof -
  have S: "{..<14::nat} = {0,1,2,3,4,5,6,7,8,9,10,11,12,13}" by (auto; arith)
  show ?thesis by (simp add: S cos_coeff_def fact_numeral)
qed

lemma cos_lower_bound:
  assumes "0 < (x::real)"
  shows "1 - x^2 / 2 + x^4 / 24 - x^6 / 720 + x^8 / 40320 - x^10 / 3628800 + x^12 / 479001600
           - x^14 / 87178291200 \<le> cos x"
proof -
  obtain u where u:
    "cos x = (\<Sum>m<14. cos_coeff m * x ^ m) + (cos (u + 1/2 * real (14::nat) * pi) / fact 14) * x ^ 14"
    using Maclaurin_cos_expansion2 [of x 14] assms by auto
  have f: "fact 14 = (87178291200::real)" by (simp add: fact_numeral)
  have "- 1 \<le> cos (u + 1/2 * real (14::nat) * pi)" by (rule cos_ge_minus_one)
  moreover have "0 \<le> x ^ 14 / 87178291200" using assms by simp
  ultimately have
    "- 1 * (x ^ 14 / 87178291200) \<le> cos (u + 1/2 * real (14::nat) * pi) * (x ^ 14 / 87178291200)"
    by (rule mult_right_mono)
  then show ?thesis unfolding u f cos_coeff_sum_14 by simp
qed

lemma cos_half_constant_pos: "0 < cos (314159 / 200000 :: real)"
proof -
  have "(0::real) < 1 - (314159 / 200000)^2 / 2 + (314159 / 200000)^4 / 24
           - (314159 / 200000)^6 / 720 + (314159 / 200000)^8 / 40320
           - (314159 / 200000)^10 / 3628800 + (314159 / 200000)^12 / 479001600
           - (314159 / 200000)^14 / 87178291200"
    by (simp add: power_divide)
  also have "\<dots> \<le> cos (314159 / 200000 :: real)" by (rule cos_lower_bound) simp
  finally show ?thesis .
qed

lemma constant_less_pi: "(3.14159::real) < pi"
proof (rule ccontr)
  assume "\<not> (3.14159::real) < pi"
  then have "pi / 2 \<le> (314159 / 200000 :: real)" by simp
  moreover have "(314159 / 200000 :: real) \<le> pi" using pi_ge_two by simp
  ultimately have "cos (314159 / 200000 :: real) \<le> cos (pi / 2)"
    by (intro cos_monotone_0_pi_le) simp_all
  then show False using cos_half_constant_pos by simp
qed

lemma power_estimate_below:
  assumes "0 < torque * rotational_speed"
  shows "power_estimate torque rotational_speed < torque * rotational_speed * 2 * pi / 60000"
proof -
  have c: "0 < torque * rotational_speed * 2" using assms by simp
  have "(torque * rotational_speed * 2) * 3.14159 < (torque * rotational_speed * 2) * pi"
    using constant_less_pi c by (rule mult_strict_left_mono)
  then show ?thesis
    unfolding power_estimate_def by (rule divide_strict_right_mono) simp
qed

text \<open>
  Claim C9, as stated: the power estimate is \<open>torque * speed * 2 * pi / 60000\<close> with the
  exact \<open>pi\<close>. It is not: at torque 60 and speed 2500 the two differ.
\<close>

theorem power_estimate_exact_pi_counterexample:
  "power_estimate 60 2500 \<noteq> 60 * 2500 * 2 * pi / 60000"
  using power_estimate_below [of 60 2500] by simp

text \<open>
  Claim C9, amended. The temperature differential is the process temperature minus the
  air temperature, the Celsius values are the Kelvin values minus 273.15, and the power
  estimate is \<open>torque * speed * 2 * 3.14159 / 60000\<close>: the constant is the six-digit
  truncation of \<open>pi\<close>, so for a positive product of torque and speed the estimate lies
  strictly below the value with the exact \<open>pi\<close>.
\<close>

theorem derived_metrics:
  "temp_diff air_temp process_temp = process_temp - air_temp \<and>
   air_temp_c air_temp = air_temp - 273.15 \<and>
   process_temp_c process_temp = process_temp - 273.15 \<and>
   power_estimate torque rotational_speed = torque * rotational_speed * 2 * 3.14159 / 60000 \<and>
   (0 < torque * rotational_speed \<longrightarrow>
      power_estimate torque rotational_speed < torque * rotational_speed * 2 * pi / 60000)"
  using power_estimate_below [of torque rotational_speed]
  by (simp add: temp_diff_def air_temp_c_def process_temp_c_def power_estimate_def)

theorem derived_metrics_witness:
  "(0::real) < 60 * 2500 \<and> power_estimate 60 2500 = 15.70795 \<and>
   power_estimate 60 2500 < 60 * 2500 * 2 * pi / 60000"
proof -
  have h: "(0::real) < 60 * 2500" by simp
  have "power_estimate 60 2500 < 60 * 2500 * 2 * pi / 60000"
    using derived_metrics [of _ _ 60 2500] h by blast
  then show ?thesis by (simp add: power_estimate_def)
qed

section \<open>The AI path: properties\<close>

subsection \<open>Extraction\<close>

lemma str_find_first: "c \<notin> set pre \<Longrightarrow> str_find (pre @ c # rest) c = int (length pre)"
  by (induction pre) (auto simp: Let_def)

lemma str_rfind_last:
  assumes "c \<notin> set suf"
  shows "str_rfind (xs @ c # suf) c = int (length xs)"
proof -
  have "c \<notin> set (rev suf)" using assms by simp
  then have "str_find (rev suf @ c # rev xs) c = int (length (rev suf))"
    by (rule str_find_first)
  then show ?thesis by (simp add: str_rfind_def)
qed

lemma extract_json_wrapped:
  assumes "CHR ''{'' \<notin> set pre" and "CHR ''}'' \<notin> set suf"
  shows "extract_json (pre @ CHR ''{'' # mid @ CHR ''}'' # suf) = CHR ''{'' # mid @ [CHR ''}'']"
proof -
  let ?content = "pre @ CHR ''{'' # mid @ CHR ''}'' # suf"
  have s: "str_find ?content (CHR ''{'') = int (length pre)"
    using assms(1) by (rule str_find_first)
  have "str_rfind ((pre @ CHR ''{'' # mid) @ CHR ''}'' # suf) (CHR ''}'') =
          int (length (pre @ CHR ''{'' # mid))"
    using assms(2) by (rule str_rfind_last)
  then have e: "str_rfind ?content (CHR ''}'') = int (length pre + length mid + 1)"
    by simp
  have n: "nat (2 + (int (length pre) + int (length mid))) - length pre = Suc (Suc (length mid))"
    by simp
  show ?thesis
    by (simp add: extract_json_def s e py_slice_def clamp_index_def Let_def n)
qed

lemma extract_json_braced: "extract_json (CHR ''{'' # mid @ [CHR ''}'']) = CHR ''{'' # mid @ [CHR ''}'']"
  using extract_json_wrapped [of "[]" "[]" mid] by simp

text \<open>
  Claim C8. In a text whose first opening brace is followed, somewhere, by its last
  closing brace, the extraction step takes exactly the substring from the one to the
  other, both included, and the parse step is the decoder run on that substring followed
  by the lookup of \<^verbatim>\<open>recommendations\<close>: prose before the object and a fence after it do not
  matter.
\<close>

theorem extraction_first_to_last_brace:
  assumes "CHR ''{'' \<notin> set pre" and "CHR ''}'' \<notin> set suf"
  shows "extract_json (pre @ CHR ''{'' # mid @ CHR ''}'' # suf) = CHR ''{'' # mid @ [CHR ''}''] \<and>
         parse_recommendations loads (JStr (pre @ CHR ''{'' # mid @ CHR ''}'' # suf)) =
           and_then (loads (CHR ''{'' # mid @ [CHR ''}'']))
             (\<lambda>recommendations_data. getitem_key recommendations_data ''recommendations'')"
  using extract_json_wrapped [OF assms, of mid]
  by (simp add: parse_recommendations_def)

theorem extraction_first_to_last_brace_witness:
  "CHR ''{'' \<notin> set fence_prefix \<and> CHR ''}'' \<notin> set fence_suffix \<and>
   extract_json fenced_text = four_items_text \<and>
   parse_recommendations four_items_loads (JStr fenced_text) = Inr (JArr four_items)"
proof -
  have h1: "CHR ''{'' \<notin> set fence_prefix" by (simp add: fence_prefix_def)
  have h2: "CHR ''}'' \<notin> set fence_suffix" by (simp add: fence_suffix_def)
  have l: "four_items_loads (CHR ''{'' # four_items_inner @ [CHR ''}'']) =
             Inr (JObj [(''recommendations'', JArr four_items)])"
    by (simp add: four_items_loads_def loads_table_def four_items_text_def)
  show ?thesis
    using extraction_first_to_last_brace [OF h1 h2, of four_items_inner four_items_loads] h1 h2
    by (simp add: fenced_text_def four_items_text_def l and_then_def)
qed

subsection \<open>What the parse step accepts\<close>

lemma message_content_chat: "message_content (Inr (chat_completion text)) = Inr (JStr text)"
  by (simp add: message_content_def chat_completion_def and_then_def py_index_def)

lemma parse_braced:
  assumes "loads (CHR ''{'' # mid @ [CHR ''}'']) = Inr (JObj [(''recommendations'', v)])"
  shows "parse_recommendations loads (JStr (CHR ''{'' # mid @ [CHR ''}''])) = Inr v"
  using assms by (simp add: parse_recommendations_def extract_json_braced and_then_def)

lemma get_ai_success:
  assumes "post (build_request F k a p s t l) = Response 200 body"
    and "message_content body = Inr content"
    and "parse_recommendations loads content = Inr v"
  shows "get_ai_recommendations F k post loads a p s t l = Some v"
  using assms by (simp add: get_ai_recommendations_def)

lemma fallback_cascade:
  "fallback F a p s t l = Some (JArr (map json_of_recommendation (cascade F a p s t l)))"
  by (simp add: fallback_def get_default_cascade)

lemma authorization_header:
  "map_of (headers (build_request F k a p s t l)) ''Authorization'' =
     Some (''Bearer '' @ format_key k)"
  by (simp add: build_request_def)

text \<open>
  The failing input of claim C1: the service answers 200 with a well-formed payload of
  one item; the function returns that one item.
\<close>

theorem ai_path_returns_single_item:
  "get_ai_recommendations scenario_a_formats (Some ''gsk_test'')
     (service_returning (Response 200 (Inr (chat_completion one_item_text))))
     one_item_loads 300 320 2500 60 1 = Some (JArr one_item) \<and>
   length one_item = 1"
proof -
  have l: "one_item_loads (CHR ''{'' # one_item_inner @ [CHR ''}'']) =
             Inr (JObj [(''recommendations'', JArr one_item)])"
    by (simp add: one_item_loads_def loads_table_def one_item_text_def)
  have p: "parse_recommendations one_item_loads (JStr one_item_text) = Inr (JArr one_item)"
    unfolding one_item_text_def using l by (rule parse_braced)
  have "get_ai_recommendations scenario_a_formats (Some ''gsk_test'')
     (service_returning (Response 200 (Inr (chat_completion one_item_text))))
     one_item_loads 300 320 2500 60 1 = Some (JArr one_item)"
    by (rule get_ai_success [OF _ message_content_chat p]) (simp add: service_returning_def)
  then show ?thesis by (simp add: one_item_def)
qed

text \<open>
  Claim C3, as stated: a payload is accepted only if each element carries the four keys
  and a priority among high, medium and low. It fails for a payload of four empty
  objects: the parse step accepts it and the function returns it.
\<close>

theorem parse_accepts_empty_items_counterexample:
  "parse_recommendations empty_items_loads (JStr empty_items_text) = Inr (JArr empty_items) \<and>
   \<not> spec_valid_payload (JObj [(''recommendations'', JArr empty_items)]) \<and>
   get_ai_recommendations scenario_a_formats (Some ''gsk_test'')
     (service_returning (Response 200 (Inr (chat_completion empty_items_text))))
     empty_items_loads 300 320 2500 60 1 = Some (JArr empty_items)"
proof -
  have l: "empty_items_loads (CHR ''{'' # empty_items_inner @ [CHR ''}'']) =
             Inr (JObj [(''recommendations'', JArr empty_items)])"
    by (simp add: empty_items_loads_def loads_table_def empty_items_text_def)
  have p: "parse_recommendations empty_items_loads (JStr empty_items_text) =
             Inr (JArr empty_items)"
    unfolding empty_items_text_def using l by (rule parse_braced)
  have n: "\<not> spec_valid_payload (JObj [(''recommendations'', JArr empty_items)])"
    by (simp add: spec_valid_payload_def empty_items_def spec_well_formed_item_def)
  have g: "get_ai_recommendations scenario_a_formats (Some ''gsk_test'')
     (service_returning (Response 200 (Inr (chat_completion empty_items_text))))
     empty_items_loads 300 320 2500 60 1 = Some (JArr empty_items)"
    by (rule get_ai_success [OF _ message_content_chat p]) (simp add: service_returning_def)
  from p n g show ?thesis by simp
qed

text \<open>
  Claim C3, amended. A sequence of four elements is accepted exactly when the content is
  a string whose extracted substring decodes to an object holding that sequence under
  the key \<^verbatim>\<open>recommendations\<close>; the elements are not inspected, and the function returns
  the sequence as decoded. Everything else on the way is a parse failure, an exception
  of the inner \<^verbatim>\<open>try\<close>: a content that is no string (\<^verbatim>\<open>AttributeError\<close>), a substring the
  decoder refuses (the decoder's exception), a decoded value that is no object
  (\<^verbatim>\<open>TypeError\<close>) and an object without the key (\<^verbatim>\<open>KeyError\<close>). Every parse failure makes
  the function return the rule-based result.
\<close>

theorem parse_accepts_unchecked:
  assumes "length xs = 4"
  shows "((parse_recommendations loads content = Inr (JArr xs)) =
          (\<exists>s kvs. content = JStr s \<and> loads (extract_json s) = Inr (JObj kvs) \<and>
                    map_of kvs ''recommendations'' = Some (JArr xs))) \<and>
         ((\<forall>s. content \<noteq> JStr s) \<longrightarrow>
            parse_recommendations loads content = Inl AttributeError) \<and>
         (loads (extract_json raw) = Inl e \<longrightarrow>
            parse_recommendations loads (JStr raw) = Inl e) \<and>
         (loads (extract_json raw) = Inr d \<longrightarrow> (\<forall>kvs. d \<noteq> JObj kvs) \<longrightarrow>
            parse_recommendations loads (JStr raw) = Inl TypeError) \<and>
         (loads (extract_json raw) = Inr (JObj kvs) \<longrightarrow>
          map_of kvs ''recommendations'' = None \<longrightarrow>
            parse_recommendations loads (JStr raw) = Inl KeyError) \<and>
         (post (build_request F api_key a p s t l) = Response 200 body \<longrightarrow>
          message_content body = Inr content \<longrightarrow>
          parse_recommendations loads content = Inl err \<longrightarrow>
            get_ai_recommendations F api_key post loads a p s t l =
              Some (JArr (map json_of_recommendation (cascade F a p s t l)))) \<and>
         (post (build_request F api_key a p s t l) = Response 200 body \<longrightarrow>
          message_content body = Inr content \<longrightarrow>
          parse_recommendations loads content = Inr (JArr xs) \<longrightarrow>
            get_ai_recommendations F api_key post loads a p s t l = Some (JArr xs))"
proof (intro conjI impI)
  show "(parse_recommendations loads content = Inr (JArr xs)) =
          (\<exists>s kvs. content = JStr s \<and> loads (extract_json s) = Inr (JObj kvs) \<and>
                    map_of kvs ''recommendations'' = Some (JArr xs))"
  proof (cases content)
    case (JStr s)
    show ?thesis
    proof (cases "loads (extract_json s)")
      case (Inl e)
      with JStr show ?thesis by (simp add: parse_recommendations_def and_then_def)
    next
      case (Inr d)
      with JStr show ?thesis
        by (cases d) (auto simp: parse_recommendations_def and_then_def split: option.splits)
    qed
  qed (simp_all add: parse_recommendations_def)
next
  assume "\<forall>s. content \<noteq> JStr s"
  then show "parse_recommendations loads content = Inl AttributeError"
    by (cases content) (simp_all add: parse_recommendations_def)
next
  assume "loads (extract_json raw) = Inl e"
  then show "parse_recommendations loads (JStr raw) = Inl e"
    by (simp add: parse_recommendations_def and_then_def)
next
  assume "loads (extract_json raw) = Inr d" and "\<forall>kvs. d \<noteq> JObj kvs"
  then show "parse_recommendations loads (JStr raw) = Inl TypeError"
    by (cases d) (simp_all add: parse_recommendations_def and_then_def)
next
  assume "loads (extract_json raw) = Inr (JObj kvs)" and "map_of kvs ''recommendations'' = None"
  then show "parse_recommendations loads (JStr raw) = Inl KeyError"
    by (simp add: parse_recommendations_def and_then_def)
next
  assume "post (build_request F api_key a p s t l) = Response 200 body"
    and "message_content body = Inr content"
    and "parse_recommendations loads content = Inl err"
  then show "get_ai_recommendations F api_key post loads a p s t l =
               Some (JArr (map json_of_recommendation (cascade F a p s t l)))"
    by (simp add: get_ai_recommendations_def fallback_cascade)
next
  assume "post (build_request F api_key a p s t l) = Response 200 body"
    and "message_content body = Inr content"
    and "parse_recommendations loads content = Inr (JArr xs)"
  then show "get_ai_recommendations F api_key post loads a p s t l = Some (JArr xs)"
    by (simp add: get_ai_recommendations_def)
qed

theorem parse_accepts_unchecked_witness:
  "length empty_items = 4 \<and>
   parse_recommendations empty_items_loads (JStr empty_items_text) = Inr (JArr empty_items) \<and>
   no_key_loads (extract_json no_key_text) = Inr (JObj [(''items'', JArr [])]) \<and>
   map_of [(''items'', JArr [])] ''recommendations'' = None \<and>
   parse_recommendations no_key_loads (JStr no_key_text) = Inl KeyError \<and>
   get_ai_recommendations scenario_a_formats (Some ''gsk_test'')
     (service_returning (Response 200 (Inr (chat_completion no_key_text))))
     no_key_loads 300 320 2500 60 1 =
     Some (JArr (map json_of_recommendation scenario_a_candidates))"
proof -
  have h: "length empty_items = 4" by (simp add: empty_items_def)
  have l: "empty_items_loads (extract_json empty_items_text) =
             Inr (JObj [(''recommendations'', JArr empty_items)])"
    by (simp add: empty_items_text_def extract_json_braced)
       (simp add: empty_items_loads_def loads_table_def empty_items_text_def)
  have ex: "\<exists>s kvs. JStr empty_items_text = JStr s \<and>
              empty_items_loads (extract_json s) = Inr (JObj kvs) \<and>
              map_of kvs ''recommendations'' = Some (JArr empty_items)"
    using l by simp
  have accepted:
    "parse_recommendations empty_items_loads (JStr empty_items_text) = Inr (JArr empty_items)"
    using parse_accepts_unchecked [OF h, where loads = empty_items_loads
        and content = "JStr empty_items_text"] ex
    by blast
  have n: "no_key_loads (extract_json no_key_text) = Inr (JObj [(''items'', JArr [])])"
    by (simp add: no_key_text_def extract_json_braced)
       (simp add: no_key_loads_def loads_table_def no_key_text_def)
  have m: "map_of [(''items'', JArr [])] ''recommendations'' = None" by simp
  have failed: "parse_recommendations no_key_loads (JStr no_key_text) = Inl KeyError"
    using parse_accepts_unchecked [OF h, where loads = no_key_loads and raw = no_key_text
        and kvs = "[(''items'', JArr [])]"] n m
    by blast
  have r: "service_returning (Response 200 (Inr (chat_completion no_key_text)))
             (build_request scenario_a_formats (Some ''gsk_test'') 300 320 2500 60 1) =
           Response 200 (Inr (chat_completion no_key_text))"
    by (simp add: service_returning_def)
  have fell_back:
    "get_ai_recommendations scenario_a_formats (Some ''gsk_test'')
       (service_returning (Response 200 (Inr (chat_completion no_key_text))))
       no_key_loads 300 320 2500 60 1 =
     Some (JArr (map json_of_recommendation (cascade scenario_a_formats 300 320 2500 60 1)))"
    using parse_accepts_unchecked [OF h, where loads = no_key_loads
        and content = "JStr no_key_text" and err = KeyError
        and post = "service_returning (Response 200 (Inr (chat_completion no_key_text)))"
        and F = scenario_a_formats and api_key = "Some ''gsk_test''"
        and a = 300 and p = 320 and s = 2500 and t = 60 and l = 1
        and body = "Inr (chat_completion no_key_text)"]
      r message_content_chat [of no_key_text] failed
    by blast
  from h accepted n m failed fell_back show ?thesis
    by (simp add: scenario_a_candidates_def)
qed

subsection \<open>Failures of the remote call\<close>

text \<open>
  Claim C4. The function returns for every outcome of the remote call. When the request
  raises (a timeout, a connection error, any exception), when the status is not 200,
  when reading the message content raises or when the parse step raises, what it returns
  is the rule-based result, the four cascade candidates.
\<close>

theorem ai_failure_returns_fallback:
  "(\<exists>r. get_ai_recommendations F api_key post loads a p s t l = Some r) \<and>
   ((\<exists>e. post (build_request F api_key a p s t l) = Raised e) \<or>
    (\<exists>code body. post (build_request F api_key a p s t l) = Response code body \<and> code \<noteq> 200) \<or>
    (\<exists>body e. post (build_request F api_key a p s t l) = Response 200 body \<and>
       message_content body = Inl e) \<or>
    (\<exists>body content e. post (build_request F api_key a p s t l) = Response 200 body \<and>
       message_content body = Inr content \<and> parse_recommendations loads content = Inl e)
    \<longrightarrow>
      get_ai_recommendations F api_key post loads a p s t l =
        Some (JArr (map json_of_recommendation (cascade F a p s t l))) \<and>
      length (cascade F a p s t l) = 4)"
proof (intro conjI impI)
  show "\<exists>r. get_ai_recommendations F api_key post loads a p s t l = Some r"
    by (simp add: get_ai_recommendations_def fallback_cascade
          split: http_outcome.splits sum.splits)
next
  assume "(\<exists>e. post (build_request F api_key a p s t l) = Raised e) \<or>
    (\<exists>code body. post (build_request F api_key a p s t l) = Response code body \<and> code \<noteq> 200) \<or>
    (\<exists>body e. post (build_request F api_key a p s t l) = Response 200 body \<and>
       message_content body = Inl e) \<or>
    (\<exists>body content e. post (build_request F api_key a p s t l) = Response 200 body \<and>
       message_content body = Inr content \<and> parse_recommendations loads content = Inl e)"
  then show "get_ai_recommendations F api_key post loads a p s t l =
        Some (JArr (map json_of_recommendation (cascade F a p s t l)))"
    by (auto simp: get_ai_recommendations_def fallback_cascade)
next
  show "length (cascade F a p s t l) = 4" by (rule length_cascade)
qed

theorem ai_failure_returns_fallback_witness:
  "service_returning (Raised Timeout)
     (build_request scenario_a_formats (Some ''gsk_test'') 300 320 2500 60 1) = Raised Timeout \<and>
   get_ai_recommendations scenario_a_formats (Some ''gsk_test'')
     (service_returning (Raised Timeout)) four_items_loads 300 320 2500 60 1 =
     Some (JArr (map json_of_recommendation scenario_a_candidates)) \<and>
   length scenario_a_candidates = 4"
proof -
  have h: "service_returning (Raised Timeout)
     (build_request scenario_a_formats (Some ''gsk_test'') 300 320 2500 60 1) = Raised Timeout"
    by (simp add: service_returning_def)
  show ?thesis
    using ai_failure_returns_fallback [of scenario_a_formats "Some ''gsk_test''"
        "service_returning (Raised Timeout)" four_items_loads 300 320 2500 60 1] h
    by (simp add: scenario_a_candidates_def)
qed

subsection \<open>An absent credential\<close>

text \<open>
  Claim C5, as stated: an absent key sends the function to the fallback without a
  successful remote attempt. It fails against a service that answers requests carrying
  \<^verbatim>\<open>Bearer None\<close>: the request is made, succeeds, and the answer is returned instead of
  the rule-based result.
\<close>

theorem absent_key_not_immediate_counterexample:
  "get_ai_recommendations scenario_a_formats None (accepts_bearer_none four_items_text)
     four_items_loads 300 320 2500 60 1 = Some (JArr four_items) \<and>
   Some (JArr four_items) \<noteq> fallback scenario_a_formats 300 320 2500 60 1"
proof -
  have l: "four_items_loads (CHR ''{'' # four_items_inner @ [CHR ''}'']) =
             Inr (JObj [(''recommendations'', JArr four_items)])"
    by (simp add: four_items_loads_def loads_table_def four_items_text_def)
  have p: "parse_recommendations four_items_loads (JStr four_items_text) = Inr (JArr four_items)"
    unfolding four_items_text_def using l by (rule parse_braced)
  have g: "get_ai_recommendations scenario_a_formats None (accepts_bearer_none four_items_text)
     four_items_loads 300 320 2500 60 1 = Some (JArr four_items)"
    by (rule get_ai_success [OF _ message_content_chat p])
       (simp add: accepts_bearer_none_def authorization_header format_key_def)
  have d: "Some (JArr four_items) \<noteq> fallback scenario_a_formats 300 320 2500 60 1"
    by (simp add: fallback_cascade cascade_all_high four_items_def json_of_recommendation_def
          cooling_system_optimization_def)
  from g d show ?thesis by simp
qed

text \<open>
  Claim C5, amended. With an absent key the request is still built and sent, its
  \<^verbatim>\<open>Authorization\<close> header being \<^verbatim>\<open>Bearer None\<close>; when the service answers it with a status
  other than 200 the function returns the rule-based result, four recommendations, and
  nothing is raised.
\<close>

theorem absent_key_rejected_falls_back:
  assumes "post (build_request F None a p s t l) = Response code body" and "code \<noteq> 200"
  shows "map_of (headers (build_request F None a p s t l)) ''Authorization'' = Some ''Bearer None'' \<and>
         get_ai_recommendations F None post loads a p s t l =
           Some (JArr (map json_of_recommendation (cascade F a p s t l))) \<and>
         length (cascade F a p s t l) = 4"
  using assms
  by (simp add: authorization_header format_key_def get_ai_recommendations_def fallback_cascade
        length_cascade)

theorem absent_key_rejected_falls_back_witness:
  "rejects_bearer_none four_items_text (build_request scenario_a_formats None 300 320 2500 60 1) =
     Response 401 (Inr invalid_key_body) \<and> (401::int) \<noteq> 200 \<and>
   get_ai_recommendations scenario_a_formats None (rejects_bearer_none four_items_text)
     four_items_loads 300 320 2500 60 1 =
     Some (JArr (map json_of_recommendation scenario_a_candidates))"
proof -
  have h1: "rejects_bearer_none four_items_text
              (build_request scenario_a_formats None 300 320 2500 60 1) =
            Response 401 (Inr invalid_key_body)"
    by (simp add: rejects_bearer_none_def authorization_header format_key_def)
  have h2: "(401::int) \<noteq> 200" by simp
  show ?thesis
    using absent_key_rejected_falls_back [of "rejects_bearer_none four_items_text"
        scenario_a_formats 300 320 2500 60 1 401 "Inr invalid_key_body" four_items_loads] h1 h2
    by (simp add: scenario_a_candidates_def)
qed

end
